theory Spec2Isabelle
  imports Complex_Main
begin

section \<open>Money values\<close>

text \<open>
  Embedding of \<^verbatim>\<open>saleor/checkout/calculations.py\<close>.

  A Python \<^verbatim>\<open>Decimal\<close> is taken as the rational number it denotes (the 28-digit
  context precision of \<^verbatim>\<open>decimal\<close> is not modelled). Every \<^verbatim>\<open>Money\<close> of one
  checkout carries the checkout's currency, so a \<^verbatim>\<open>Money\<close> is its amount and a
  \<^verbatim>\<open>TaxedMoney\<close> is the pair of its net and gross amounts.
\<close>

type_synonym decimal = rat
type_synonym timestamp = int
type_synonym address = nat
type_synonym discount_info = nat

record taxed_money =
  net :: decimal
  gross :: decimal

datatype error = StopIteration | DivisionByZero | InvalidOperation

text \<open>\<^verbatim>\<open>zero_taxed_money(currency)\<close> of \<^verbatim>\<open>saleor.core.taxes\<close>.\<close>

definition zero_taxed_money :: "string \<Rightarrow> taxed_money" where
  "zero_taxed_money cur = \<lparr>net = 0, gross = 0\<rparr>"

text \<open>
  The operators of \<^verbatim>\<open>prices.TaxedMoney\<close> that the module uses: \<^verbatim>\<open>+\<close> on two
  taxed amounts, \<^verbatim>\<open>-\<close> with a \<^verbatim>\<open>Money\<close> on the right (subtracted from net and from
  gross), \<^verbatim>\<open><\<close> (which compares the gross amounts) and \<^verbatim>\<open>/\<close> by an integer, net
  first. \<^verbatim>\<open>TaxedMoney\<close> defines no \<^verbatim>\<open>>\<close> of its own, so Python answers \<^verbatim>\<open>a > b\<close> with
  the reflected \<^verbatim>\<open>b < a\<close>. \<^verbatim>\<open>Decimal\<close> division by zero raises.
\<close>

definition taxed_add :: "taxed_money \<Rightarrow> taxed_money \<Rightarrow> taxed_money" where
  "taxed_add a b = \<lparr>net = net a + net b, gross = gross a + gross b\<rparr>"

definition taxed_sub_money :: "taxed_money \<Rightarrow> decimal \<Rightarrow> taxed_money" where
  "taxed_sub_money a m = \<lparr>net = net a - m, gross = gross a - m\<rparr>"

definition taxed_lt :: "taxed_money \<Rightarrow> taxed_money \<Rightarrow> bool" where
  "taxed_lt a b = (gross a < gross b)"

definition taxed_gt :: "taxed_money \<Rightarrow> taxed_money \<Rightarrow> bool" where
  "taxed_gt a b = taxed_lt b a"

text \<open>Python's \<^verbatim>\<open>max(a, b)\<close>: the second argument only when it is greater.\<close>

definition max_taxed :: "taxed_money \<Rightarrow> taxed_money \<Rightarrow> taxed_money" where
  "max_taxed a b = (if taxed_gt b a then b else a)"

definition decimal_div :: "decimal \<Rightarrow> int \<Rightarrow> error + decimal" where
  "decimal_div x n =
     (if n = 0 then (if x = 0 then Inl InvalidOperation else Inl DivisionByZero)
      else Inr (x / of_int n))"

definition taxed_div :: "taxed_money \<Rightarrow> int \<Rightarrow> error + taxed_money" where
  "taxed_div p n =
     (case decimal_div (net p) n of
        Inl e \<Rightarrow> Inl e
      | Inr a \<Rightarrow>
          (case decimal_div (gross p) n of
             Inl e \<Rightarrow> Inl e
           | Inr b \<Rightarrow> Inr \<lparr>net = a, gross = b\<rparr>))"

text \<open>\<^verbatim>\<open>sum(xs, start)\<close> on taxed amounts: a left fold of \<^verbatim>\<open>+\<close> from \<^verbatim>\<open>start\<close>.\<close>

definition sum_taxed :: "taxed_money list \<Rightarrow> taxed_money \<Rightarrow> taxed_money" where
  "sum_taxed xs start = foldl taxed_add start xs"

section \<open>Rounding\<close>

text \<open>
  Modelled from the spec: \<^verbatim>\<open>quantize_price\<close> of \<^verbatim>\<open>saleor.core.prices\<close> is not among
  the sources. The spec: it normalises a TaxedMoney to the currency's minor-unit
  precision, net and gross independently. \<open>quantize_amount p x\<close> rounds \<open>x\<close> to \<open>p\<close>
  decimal places, a half away from zero (\<^verbatim>\<open>ROUND_HALF_UP\<close>, the default of
  \<^verbatim>\<open>Money.quantize\<close>).
\<close>

definition quantize_amount :: "nat \<Rightarrow> decimal \<Rightarrow> decimal" where
  "quantize_amount p x =
     (if 0 \<le> x then of_int \<lfloor>x * 10 ^ p + 1 / 2\<rfloor> / 10 ^ p
      else - (of_int \<lfloor>- x * 10 ^ p + 1 / 2\<rfloor> / 10 ^ p))"

definition quantize_taxed :: "nat \<Rightarrow> taxed_money \<Rightarrow> taxed_money" where
  "quantize_taxed p m = \<lparr>net = quantize_amount p (net m), gross = quantize_amount p (gross m)\<rparr>"



section \<open>Checkout data\<close>

record checkout_line =
  pk :: nat
  quantity :: int
  total_price :: taxed_money
  tax_rate :: decimal

text \<open>\<^verbatim>\<open>CheckoutLineInfo\<close>: the line with the product data the base prices are computed from.\<close>

record checkout_line_info =
  line :: checkout_line
  variant :: nat

record checkout =
  currency :: string
  tax_exemption :: bool
  price_expiration :: timestamp
  shipping_price :: taxed_money
  subtotal :: taxed_money
  total_c :: taxed_money
  shipping_tax_rate :: decimal

text \<open>
  \<^verbatim>\<open>CheckoutInfo\<close>. In the source \<^verbatim>\<open>checkout\<close> and \<^verbatim>\<open>checkout_info.checkout\<close> are one
  object; here the checkout lives in its \<open>checkout_info\<close> only.
\<close>

record checkout_info =
  checkout :: checkout
  prices_entered_with_tax :: bool
  shipping_address :: "address option"
  billing_address :: "address option"
  channel :: nat

record tax_line_data =
  total_net_amount :: decimal
  total_gross_amount :: decimal
  tax_rate_d :: decimal

record tax_data =
  shipping_tax_rate_d :: decimal
  shipping_price_net_amount :: decimal
  shipping_price_gross_amount :: decimal
  lines :: "tax_line_data list"

section \<open>Collaborators\<close>

text \<open>
  The plugins manager, the base calculations, the flat-rate engine, the tax utilities, the
  clock and the settings are not among the sources: they are parameters. A collaborator
  is a function of what the source passes to it.
\<close>

record plugins_manager =
  manager_calculate_checkout_line_total ::
    "checkout_info \<Rightarrow> checkout_line_info list \<Rightarrow> checkout_line_info \<Rightarrow> address option
       \<Rightarrow> discount_info list \<Rightarrow> taxed_money"
  manager_calculate_checkout_line_unit_price ::
    "checkout_info \<Rightarrow> checkout_line_info list \<Rightarrow> checkout_line_info \<Rightarrow> address option
       \<Rightarrow> discount_info list \<Rightarrow> taxed_money"
  manager_get_checkout_line_tax_rate ::
    "checkout_info \<Rightarrow> checkout_line_info list \<Rightarrow> checkout_line_info \<Rightarrow> address option
       \<Rightarrow> discount_info list \<Rightarrow> taxed_money \<Rightarrow> decimal"
  manager_calculate_checkout_shipping ::
    "checkout_info \<Rightarrow> checkout_line_info list \<Rightarrow> address option \<Rightarrow> discount_info list
       \<Rightarrow> taxed_money"
  manager_get_checkout_shipping_tax_rate ::
    "checkout_info \<Rightarrow> checkout_line_info list \<Rightarrow> address option \<Rightarrow> discount_info list
       \<Rightarrow> taxed_money \<Rightarrow> decimal"
  manager_calculate_checkout_subtotal ::
    "checkout_info \<Rightarrow> checkout_line_info list \<Rightarrow> address option \<Rightarrow> discount_info list
       \<Rightarrow> taxed_money"
  manager_calculate_checkout_total ::
    "checkout_info \<Rightarrow> checkout_line_info list \<Rightarrow> address option \<Rightarrow> discount_info list
       \<Rightarrow> taxed_money"
  manager_get_taxes_for_checkout ::
    "checkout_info \<Rightarrow> checkout_line_info list \<Rightarrow> tax_data option"

record env =
  now_at_check :: timestamp
  now_at_save :: timestamp
  CHECKOUT_PRICES_TTL :: int
  get_currency_precision :: "string \<Rightarrow> nat"
  normalize_tax_rate_for_db :: "decimal \<Rightarrow> decimal"
  calculate_tax_rate :: "taxed_money \<Rightarrow> decimal"
  get_tax_calculation_strategy_for_checkout ::
    "checkout_info \<Rightarrow> checkout_line_info list \<Rightarrow> string"
  get_charge_taxes_for_checkout :: "checkout_info \<Rightarrow> checkout_line_info list \<Rightarrow> bool"
  update_checkout_prices_with_flat_rates ::
    "checkout_info \<Rightarrow> checkout_line_info list \<Rightarrow> bool \<Rightarrow> address option
       \<Rightarrow> discount_info list option \<Rightarrow> checkout_info \<times> checkout_line_info list"
  calculate_base_line_total_price :: "checkout_line_info \<Rightarrow> nat \<Rightarrow> discount_info list \<Rightarrow> decimal"
  calculate_base_line_unit_price :: "checkout_line_info \<Rightarrow> nat \<Rightarrow> discount_info list \<Rightarrow> decimal"
  base_checkout_delivery_price :: "checkout_info \<Rightarrow> checkout_line_info list \<Rightarrow> decimal"
  base_checkout_total ::
    "checkout_info \<Rightarrow> discount_info list \<Rightarrow> checkout_line_info list \<Rightarrow> decimal"
  get_total_gift_cards_balance :: "checkout \<Rightarrow> decimal"

definition quantize_price :: "env \<Rightarrow> taxed_money \<Rightarrow> string \<Rightarrow> taxed_money" where
  "quantize_price E price cur = quantize_taxed (get_currency_precision E cur) price"

section \<open>The observable world\<close>

text \<open>
  A call mutates the checkout and its lines in place, calls collaborators and writes
  to the database. The world holds the objects, the trace of collaborator calls and the
  trace of writes. The line objects of \<open>line_infos\<close> are taken to be distinct objects.
  The trace records the calls to the plugins manager, the base calculations, the
  flat-rate engine and the tax configuration lookups; the arithmetic helpers
  (\<^verbatim>\<open>quantize_price\<close>, \<^verbatim>\<open>calculate_tax_rate\<close>, \<^verbatim>\<open>normalize_tax_rate_for_db\<close>) are not
  recorded.
\<close>

datatype call =
  ManagerCall string
  | BaseCall string
  | FlatRatesCall
  | TaxUtilsCall string

datatype db_write =
  CheckoutSave checkout "string list"
  | LinesBulkUpdate "checkout_line list" "string list"

record world =
  info :: checkout_info
  line_infos :: "checkout_line_info list"
  calls :: "call list"
  db :: "db_write list"

section \<open>Tax application\<close>

text \<open>\<^verbatim>\<open>_remove_tax\<close>: every gross amount becomes its net amount, every rate zero.\<close>

definition remove_tax_line :: "checkout_line_info \<Rightarrow> checkout_line_info" where
  "remove_tax_line li =
     li\<lparr>line := (line li)
        \<lparr>total_price := (total_price (line li))\<lparr>gross := net (total_price (line li))\<rparr>,
         tax_rate := 0\<rparr>\<rparr>"

definition remove_tax ::
  "checkout \<Rightarrow> checkout_line_info list \<Rightarrow> checkout \<times> checkout_line_info list" where
  "remove_tax c ls =
     (c\<lparr>total_c := (total_c c)\<lparr>gross := net (total_c c)\<rparr>,
        subtotal := (subtotal c)\<lparr>gross := net (subtotal c)\<rparr>,
        shipping_price := (shipping_price c)\<lparr>gross := net (shipping_price c)\<rparr>,
        shipping_tax_rate := 0\<rparr>,
      map remove_tax_line ls)"

text \<open>\<^verbatim>\<open>_calculate_checkout_total\<close> and \<^verbatim>\<open>_calculate_checkout_subtotal\<close>.\<close>

definition calculate_checkout_total :: "env \<Rightarrow> checkout \<Rightarrow> string \<Rightarrow> taxed_money" where
  "calculate_checkout_total E c cur =
     quantize_price E (taxed_add (subtotal c) (shipping_price c)) cur"

definition calculate_checkout_subtotal ::
  "env \<Rightarrow> checkout_line_info list \<Rightarrow> string \<Rightarrow> taxed_money" where
  "calculate_checkout_subtotal E ls cur =
     quantize_price E
       (sum_taxed (map (\<lambda>line_info. total_price (line line_info)) ls) (zero_taxed_money cur))
       cur"

text \<open>
  \<^verbatim>\<open>_apply_tax_data\<close>. The loop runs over \<^verbatim>\<open>zip(lines, tax_data.lines)\<close>, which stops at
  the shorter of the two: the lines beyond it are left as they are.
\<close>

definition apply_tax_line ::
  "env \<Rightarrow> string \<Rightarrow> checkout_line_info \<Rightarrow> tax_line_data \<Rightarrow> checkout_line_info" where
  "apply_tax_line E cur li t =
     li\<lparr>line := (line li)
        \<lparr>total_price :=
           quantize_price E \<lparr>net = total_net_amount t, gross = total_gross_amount t\<rparr> cur,
         tax_rate := normalize_tax_rate_for_db E (tax_rate_d t)\<rparr>\<rparr>"

fun apply_tax_lines ::
  "env \<Rightarrow> string \<Rightarrow> checkout_line_info list \<Rightarrow> tax_line_data list \<Rightarrow> checkout_line_info list"
where
  "apply_tax_lines E cur (li # ls) (t # ts) =
     apply_tax_line E cur li t # apply_tax_lines E cur ls ts"
| "apply_tax_lines E cur ls [] = ls"
| "apply_tax_lines E cur [] ts = []"

definition apply_tax_data ::
  "env \<Rightarrow> checkout \<Rightarrow> checkout_line_info list \<Rightarrow> tax_data option
     \<Rightarrow> checkout \<times> checkout_line_info list" where
  "apply_tax_data E c ls tax_data =
     (case tax_data of
        None \<Rightarrow> (c, ls)
      | Some td \<Rightarrow>
          (let cur = currency c;
               ls1 = apply_tax_lines E cur ls (lines td);
               c1 = c\<lparr>shipping_tax_rate := normalize_tax_rate_for_db E (shipping_tax_rate_d td)\<rparr>;
               c2 = c1\<lparr>shipping_price :=
                      quantize_price E
                        \<lparr>net = shipping_price_net_amount td,
                         gross = shipping_price_gross_amount td\<rparr> cur\<rparr>;
               c3 = c2\<lparr>subtotal := calculate_checkout_subtotal E ls1 cur\<rparr>;
               c4 = c3\<lparr>total_c := calculate_checkout_total E c3 cur\<rparr>
           in (c4, ls1)))"

text \<open>
  \<^verbatim>\<open>_apply_tax_data_from_plugins\<close>. The manager is handed the whole list of lines at
  every call, so the loop carries the lines already updated (\<open>seen\<close>) and those to come.
\<close>

definition normalize_discounts :: "discount_info list option \<Rightarrow> discount_info list" where
  "normalize_discounts discounts = (case discounts of None \<Rightarrow> [] | Some ds \<Rightarrow> ds)"

definition plugin_line ::
  "plugins_manager \<Rightarrow> checkout_info \<Rightarrow> checkout_line_info list \<Rightarrow> checkout_line_info
     \<Rightarrow> checkout_line_info list \<Rightarrow> address option \<Rightarrow> discount_info list \<Rightarrow> checkout_line_info"
where
  "plugin_line M ci seen li todo a ds =
     (let total = manager_calculate_checkout_line_total M ci (seen @ li # todo) li a ds;
          li1 = li\<lparr>line := (line li)\<lparr>total_price := total\<rparr>\<rparr>;
          unit_price =
            manager_calculate_checkout_line_unit_price M ci (seen @ li1 # todo) li1 a ds;
          rate = manager_get_checkout_line_tax_rate M ci (seen @ li1 # todo) li1 a ds unit_price
      in li1\<lparr>line := (line li1)\<lparr>tax_rate := rate\<rparr>\<rparr>)"

fun plugin_lines ::
  "plugins_manager \<Rightarrow> checkout_info \<Rightarrow> checkout_line_info list \<Rightarrow> checkout_line_info list
     \<Rightarrow> address option \<Rightarrow> discount_info list \<Rightarrow> checkout_line_info list" where
  "plugin_lines M ci seen [] a ds = seen"
| "plugin_lines M ci seen (li # todo) a ds =
     plugin_lines M ci (seen @ [plugin_line M ci seen li todo a ds]) todo a ds"

definition apply_tax_data_from_plugins ::
  "plugins_manager \<Rightarrow> checkout_info \<Rightarrow> checkout_line_info list \<Rightarrow> address option
     \<Rightarrow> discount_info list option \<Rightarrow> checkout_info \<times> checkout_line_info list" where
  "apply_tax_data_from_plugins M ci ls a discounts =
     (let ds = normalize_discounts discounts;
          ls1 = plugin_lines M ci [] ls a ds;
          ci1 = ci\<lparr>checkout := (checkout ci)
                  \<lparr>shipping_price := manager_calculate_checkout_shipping M ci ls1 a ds\<rparr>\<rparr>;
          ci2 = ci1\<lparr>checkout := (checkout ci1)
                  \<lparr>shipping_tax_rate :=
                     manager_get_checkout_shipping_tax_rate M ci1 ls1 a ds
                       (shipping_price (checkout ci1))\<rparr>\<rparr>;
          ci3 = ci2\<lparr>checkout := (checkout ci2)
                  \<lparr>subtotal := manager_calculate_checkout_subtotal M ci2 ls1 a ds\<rparr>\<rparr>;
          ci4 = ci3\<lparr>checkout := (checkout ci3)
                  \<lparr>total_c := manager_calculate_checkout_total M ci3 ls1 a ds\<rparr>\<rparr>
      in (ci4, ls1))"

text \<open>The collaborator calls of \<^verbatim>\<open>_apply_tax_data_from_plugins\<close>, in order.\<close>

definition plugin_calls :: "checkout_line_info list \<Rightarrow> call list" where
  "plugin_calls ls =
     concat (map (\<lambda>_. [ManagerCall ''calculate_checkout_line_total'',
                        ManagerCall ''calculate_checkout_line_unit_price'',
                        ManagerCall ''get_checkout_line_tax_rate'']) ls)
     @ [ManagerCall ''calculate_checkout_shipping'',
        ManagerCall ''get_checkout_shipping_tax_rate'',
        ManagerCall ''calculate_checkout_subtotal'',
        ManagerCall ''calculate_checkout_total'']"

text \<open>\<^verbatim>\<open>_get_checkout_base_prices\<close>: the tax-free path.\<close>

definition base_line ::
  "env \<Rightarrow> string \<Rightarrow> nat \<Rightarrow> discount_info list \<Rightarrow> checkout_line_info \<Rightarrow> checkout_line_info" where
  "base_line E cur chan ds li =
     (let total_price_default = calculate_base_line_total_price E li chan ds;
          li1 = li\<lparr>line := (line li)
                  \<lparr>total_price :=
                     quantize_price E
                       \<lparr>net = total_price_default, gross = total_price_default\<rparr> cur\<rparr>\<rparr>;
          unit_price_default = calculate_base_line_unit_price E li1 chan ds;
          unit_price =
            quantize_price E \<lparr>net = unit_price_default, gross = unit_price_default\<rparr> cur
      in li1\<lparr>line := (line li1)\<lparr>tax_rate := calculate_tax_rate E unit_price\<rparr>\<rparr>)"

definition get_checkout_base_prices ::
  "env \<Rightarrow> checkout_info \<Rightarrow> checkout_line_info list \<Rightarrow> discount_info list option
     \<Rightarrow> checkout_info \<times> checkout_line_info list" where
  "get_checkout_base_prices E ci ls discounts =
     (let ds = normalize_discounts discounts;
          cur = currency (checkout ci);
          ls1 = map (base_line E cur (channel ci) ds) ls;
          shipping_price_default = base_checkout_delivery_price E ci ls1;
          ci1 = ci\<lparr>checkout := (checkout ci)
                  \<lparr>shipping_price :=
                     quantize_price E
                       \<lparr>net = shipping_price_default, gross = shipping_price_default\<rparr> cur\<rparr>\<rparr>;
          ci2 = ci1\<lparr>checkout := (checkout ci1)
                  \<lparr>shipping_tax_rate := calculate_tax_rate E (shipping_price (checkout ci1))\<rparr>\<rparr>;
          subtotal_default =
            sum_taxed (map (\<lambda>line_info. total_price (line line_info)) ls1) (zero_taxed_money cur);
          ci3 = ci2\<lparr>checkout := (checkout ci2)\<lparr>subtotal := subtotal_default\<rparr>\<rparr>;
          total_default = base_checkout_total E ci3 ds ls1;
          ci4 = ci3\<lparr>checkout := (checkout ci3)
                  \<lparr>total_c :=
                     quantize_price E \<lparr>net = total_default, gross = total_default\<rparr> cur\<rparr>\<rparr>
      in (ci4, ls1))"

definition base_calls :: "checkout_line_info list \<Rightarrow> call list" where
  "base_calls ls =
     concat (map (\<lambda>_. [BaseCall ''calculate_base_line_total_price'',
                        BaseCall ''calculate_base_line_unit_price'']) ls)
     @ [BaseCall ''base_checkout_delivery_price'',
        BaseCall ''base_checkout_total'']"

section \<open>The freshness controller\<close>

text \<open>
  \<^verbatim>\<open>_calculate_and_add_tax\<close>. The source has an \<^verbatim>\<open>if\<close> for \<^verbatim>\<open>TAX_APP\<close>, an
  \<^verbatim>\<open>elif\<close> for \<^verbatim>\<open>FLAT_RATES\<close> and no \<^verbatim>\<open>else\<close>.
\<close>

definition calculate_and_add_tax ::
  "env \<Rightarrow> string \<Rightarrow> plugins_manager \<Rightarrow> world \<Rightarrow> bool \<Rightarrow> address option
     \<Rightarrow> discount_info list option \<Rightarrow> error + world" where
  "calculate_and_add_tax E tax_calculation_strategy M w pewt a discounts =
     (if tax_calculation_strategy = ''TAX_APP'' then
        (let (ci1, ls1) = apply_tax_data_from_plugins M (info w) (line_infos w) a discounts;
             tax_data = manager_get_taxes_for_checkout M ci1 ls1;
             (c2, ls2) = apply_tax_data E (checkout ci1) ls1 tax_data
         in Inr (w\<lparr>info := ci1\<lparr>checkout := c2\<rparr>,
                   line_infos := ls2,
                   calls := calls w @ plugin_calls (line_infos w)
                            @ [ManagerCall ''get_taxes_for_checkout'']\<rparr>))
      else if tax_calculation_strategy = ''FLAT_RATES'' then
        (let (ci1, ls1) =
               update_checkout_prices_with_flat_rates E (info w) (line_infos w) pewt a discounts
         in Inr (w\<lparr>info := ci1, line_infos := ls1, calls := calls w @ [FlatRatesCall]\<rparr>))
      else Inr w)"

definition remove_tax_world :: "world \<Rightarrow> world" where
  "remove_tax_world w =
     (let (c, ls) = remove_tax (checkout (info w)) (line_infos w)
      in w\<lparr>info := (info w)\<lparr>checkout := c\<rparr>, line_infos := ls\<rparr>)"

definition get_checkout_base_prices_world ::
  "env \<Rightarrow> world \<Rightarrow> discount_info list option \<Rightarrow> world" where
  "get_checkout_base_prices_world E w discounts =
     (let (ci, ls) = get_checkout_base_prices E (info w) (line_infos w) discounts
      in w\<lparr>info := ci, line_infos := ls, calls := calls w @ base_calls (line_infos w)\<rparr>)"

definition checkout_update_fields :: "string list" where
  "checkout_update_fields =
     [''voucher_code'', ''total_net_amount'', ''total_gross_amount'', ''subtotal_net_amount'',
      ''subtotal_gross_amount'', ''shipping_price_net_amount'', ''shipping_price_gross_amount'',
      ''shipping_tax_rate'', ''price_expiration'', ''translated_discount_name'',
      ''discount_amount'', ''discount_name'', ''currency'']"

definition line_update_fields :: "string list" where
  "line_update_fields = [''total_price_net_amount'', ''total_price_gross_amount'', ''tax_rate'']"

text \<open>The end of a recomputation: the new expiration, then the two writes.\<close>

definition persist :: "env \<Rightarrow> world \<Rightarrow> world" where
  "persist E w =
     (let c = (checkout (info w))\<lparr>price_expiration := now_at_save E + CHECKOUT_PRICES_TTL E\<rparr>
      in w\<lparr>info := (info w)\<lparr>checkout := c\<rparr>,
           db := db w @ [CheckoutSave c checkout_update_fields,
                         LinesBulkUpdate (map line (line_infos w)) line_update_fields]\<rparr>)"

text \<open>
  The body of \<^verbatim>\<open>fetch_checkout_prices_if_expired\<close> after the freshness test: the two
  tax configuration lookups, then the decision table.
\<close>

definition tax_lookup_calls :: "call list" where
  "tax_lookup_calls =
     [TaxUtilsCall ''get_tax_calculation_strategy_for_checkout'',
      TaxUtilsCall ''get_charge_taxes_for_checkout'']"

definition recompute ::
  "env \<Rightarrow> plugins_manager \<Rightarrow> world \<Rightarrow> address option \<Rightarrow> discount_info list option
     \<Rightarrow> error + world" where
  "recompute E M w a discounts =
     (let c = checkout (info w);
          tax_calculation_strategy =
            get_tax_calculation_strategy_for_checkout E (info w) (line_infos w);
          pewt = prices_entered_with_tax (info w);
          charge_taxes = get_charge_taxes_for_checkout E (info w) (line_infos w);
          should_charge_tax = (charge_taxes \<and> \<not> tax_exemption c);
          w0 = w\<lparr>calls := calls w @ tax_lookup_calls\<rparr>
      in if pewt then
           (case calculate_and_add_tax E tax_calculation_strategy M w0 pewt a discounts of
              Inl e \<Rightarrow> Inl e
            | Inr w1 \<Rightarrow> if \<not> should_charge_tax then Inr (remove_tax_world w1) else Inr w1)
         else if should_charge_tax then
           calculate_and_add_tax E tax_calculation_strategy M w0 pewt a discounts
         else Inr (get_checkout_base_prices_world E w0 discounts))"

text \<open>\<^verbatim>\<open>fetch_checkout_prices_if_expired\<close>.\<close>

definition fetch_checkout_prices_if_expired ::
  "env \<Rightarrow> plugins_manager \<Rightarrow> world \<Rightarrow> address option \<Rightarrow> discount_info list option \<Rightarrow> bool
     \<Rightarrow> error + world" where
  "fetch_checkout_prices_if_expired E M w a discounts force_update =
     (if \<not> force_update \<and> price_expiration (checkout (info w)) > now_at_check E then Inr w
      else
        (case recompute E M w a discounts of
           Inl e \<Rightarrow> Inl e
         | Inr w1 \<Rightarrow> Inr (persist E w1)))"

section \<open>The read operations\<close>



definition checkout_total ::
  "env \<Rightarrow> plugins_manager \<Rightarrow> world \<Rightarrow> address option \<Rightarrow> discount_info list option
     \<Rightarrow> error + world \<times> taxed_money" where
  "checkout_total E M w a discounts =
     (let cur = currency (checkout (info w))
      in case fetch_checkout_prices_if_expired E M w a discounts False of
           Inl e \<Rightarrow> Inl e
         | Inr w1 \<Rightarrow> Inr (w1, quantize_price E (total_c (checkout (info w1))) cur))"

text \<open>
  \<^verbatim>\<open>calculate_checkout_total_with_gift_cards\<close>. The balance is read from the checkout
  after \<^verbatim>\<open>checkout_total\<close> has run.
\<close>

definition calculate_checkout_total_with_gift_cards ::
  "env \<Rightarrow> plugins_manager \<Rightarrow> world \<Rightarrow> address option \<Rightarrow> discount_info list option
     \<Rightarrow> error + world \<times> taxed_money" where
  "calculate_checkout_total_with_gift_cards E M w a discounts =
     (case checkout_total E M w a discounts of
        Inl e \<Rightarrow> Inl e
      | Inr (w1, t) \<Rightarrow>
          (let total = taxed_sub_money t (get_total_gift_cards_balance E (checkout (info w1)))
           in Inr (w1, max_taxed total (zero_taxed_money (currency (checkout (info w1)))))))"

text \<open>\<^verbatim>\<open>_find_checkout_line_info\<close>: \<^verbatim>\<open>next\<close> on an exhausted generator raises.\<close>

definition find_checkout_line_info ::
  "checkout_line_info list \<Rightarrow> checkout_line_info \<Rightarrow> error + checkout_line_info" where
  "find_checkout_line_info ls checkout_line_info =
     (case find (\<lambda>line_info. pk (line line_info) = pk (line checkout_line_info)) ls of
        None \<Rightarrow> Inl StopIteration
      | Some line_info \<Rightarrow> Inr line_info)"

text \<open>\<^verbatim>\<open>a or b\<close> on two optional addresses.\<close>

definition address_or :: "address option \<Rightarrow> address option \<Rightarrow> address option" where
  "address_or a b = (case a of Some x \<Rightarrow> Some x | None \<Rightarrow> b)"


definition checkout_line_unit_price ::
  "env \<Rightarrow> plugins_manager \<Rightarrow> world \<Rightarrow> checkout_line_info \<Rightarrow> discount_info list
     \<Rightarrow> error + world \<times> taxed_money" where
  "checkout_line_unit_price E M w checkout_line_info discounts =
     (let cur = currency (checkout (info w));
          a = address_or (shipping_address (info w)) (billing_address (info w))
      in case fetch_checkout_prices_if_expired E M w a (Some discounts) False of
           Inl e \<Rightarrow> Inl e
         | Inr w1 \<Rightarrow>
             (case find_checkout_line_info (line_infos w1) checkout_line_info of
                Inl e \<Rightarrow> Inl e
              | Inr li \<Rightarrow>
                  (case taxed_div (total_price (line li)) (quantity (line li)) of
                     Inl e \<Rightarrow> Inl e
                   | Inr unit_price \<Rightarrow> Inr (w1, quantize_price E unit_price cur))))"

section \<open>A concrete shop\<close>

text \<open>
  A US-dollar shop for the concrete evaluations below: two decimal places, rates stored as
  fractions, ten dollars a unit before tax, five dollars of shipping, a voucher worth five
  dollars taken off the base total, a ten-dollar gift card, and a plugin that adds ten
  percent.
\<close>

definition usd_env :: env where
  "usd_env =
     \<lparr>now_at_check = 1000,
      now_at_save = 1001,
      CHECKOUT_PRICES_TTL = 3600,
      get_currency_precision = (\<lambda>_. 2),
      normalize_tax_rate_for_db = (\<lambda>r. r / 100),
      calculate_tax_rate = (\<lambda>p. if net p \<noteq> 0 then (gross p - net p) / net p else 0),
      get_tax_calculation_strategy_for_checkout = (\<lambda>_ _. ''TAX_APP''),
      get_charge_taxes_for_checkout = (\<lambda>_ _. True),
      update_checkout_prices_with_flat_rates = (\<lambda>ci ls _ _ _. (ci, ls)),
      calculate_base_line_total_price = (\<lambda>li _ _. 10 * of_int (quantity (line li))),
      calculate_base_line_unit_price = (\<lambda>_ _ _. 10),
      base_checkout_delivery_price = (\<lambda>_ _. 5),
      base_checkout_total =
        (\<lambda>ci _ _. max 0 (net (subtotal (checkout ci)) + net (shipping_price (checkout ci)) - 5)),
      get_total_gift_cards_balance = (\<lambda>_. 10)\<rparr>"

definition demo_manager :: plugins_manager where
  "demo_manager =
     \<lparr>manager_calculate_checkout_line_total =
        (\<lambda>_ _ li _ _. \<lparr>net = 10 * of_int (quantity (line li)),
                        gross = 11 * of_int (quantity (line li))\<rparr>),
      manager_calculate_checkout_line_unit_price = (\<lambda>_ _ _ _ _. \<lparr>net = 10, gross = 11\<rparr>),
      manager_get_checkout_line_tax_rate = (\<lambda>_ _ _ _ _ _. 1 / 10),
      manager_calculate_checkout_shipping = (\<lambda>_ _ _ _. \<lparr>net = 5, gross = 11 / 2\<rparr>),
      manager_get_checkout_shipping_tax_rate = (\<lambda>_ _ _ _ _. 1 / 10),
      manager_calculate_checkout_subtotal = (\<lambda>_ _ _ _. \<lparr>net = 30, gross = 33\<rparr>),
      manager_calculate_checkout_total = (\<lambda>_ _ _ _. \<lparr>net = 35, gross = 77 / 2\<rparr>),
      manager_get_taxes_for_checkout = (\<lambda>_ _. None)\<rparr>"

text \<open>The same shop with \<^verbatim>\<open>charge_taxes\<close> switched off.\<close>

definition untaxed_env :: env where
  "untaxed_env = usd_env\<lparr>get_charge_taxes_for_checkout := (\<lambda>_ _. False)\<rparr>"



text \<open>A consolidated answer of the tax app with one line entry, and a manager that gives it.\<close>

definition demo_tax_data :: tax_data where
  "demo_tax_data =
     \<lparr>shipping_tax_rate_d = 10,
      shipping_price_net_amount = 5,
      shipping_price_gross_amount = 11 / 2,
      lines = [\<lparr>total_net_amount = 20, total_gross_amount = 2205 / 100, tax_rate_d = 10\<rparr>]\<rparr>"

text \<open>An answer with two line entries that differ in every field.\<close>

definition two_line_tax_data :: tax_data where
  "two_line_tax_data =
     \<lparr>shipping_tax_rate_d = 10,
      shipping_price_net_amount = 5,
      shipping_price_gross_amount = 11 / 2,
      lines = [\<lparr>total_net_amount = 20, total_gross_amount = 2205 / 100, tax_rate_d = 10\<rparr>,
               \<lparr>total_net_amount = 10, total_gross_amount = 1080 / 100, tax_rate_d = 8\<rparr>]\<rparr>"

definition tax_app_manager :: plugins_manager where
  "tax_app_manager = demo_manager\<lparr>manager_get_taxes_for_checkout := (\<lambda>_ _. Some demo_tax_data)\<rparr>"

definition demo_line :: "nat \<Rightarrow> int \<Rightarrow> checkout_line_info" where
  "demo_line k q =
     \<lparr>line = \<lparr>pk = k, quantity = q, total_price = \<lparr>net = 0, gross = 0\<rparr>, tax_rate = 0\<rparr>,
      variant = k\<rparr>"

definition demo_checkout :: "timestamp \<Rightarrow> checkout" where
  "demo_checkout expiration =
     \<lparr>currency = ''USD'',
      tax_exemption = False,
      price_expiration = expiration,
      shipping_price = \<lparr>net = 0, gross = 0\<rparr>,
      subtotal = \<lparr>net = 0, gross = 0\<rparr>,
      total_c = \<lparr>net = 0, gross = 0\<rparr>,
      shipping_tax_rate = 0\<rparr>"

definition demo_world :: "timestamp \<Rightarrow> bool \<Rightarrow> checkout_line_info list \<Rightarrow> world" where
  "demo_world expiration pewt ls =
     \<lparr>info = \<lparr>checkout = demo_checkout expiration,
              prices_entered_with_tax = pewt,
              shipping_address = Some 1,
              billing_address = None,
              channel = 1\<rparr>,
      line_infos = ls,
      calls = [],
      db = []\<rparr>"

section \<open>Rounding lemmas\<close>












section \<open>The freshness short-circuit\<close>

text \<open>
  C1. With \<^verbatim>\<open>force_update\<close> false and \<^verbatim>\<open>price_expiration\<close> strictly after the clock,
  \<^verbatim>\<open>fetch_checkout_prices_if_expired\<close> returns the world it was given: the checkout
  info and the lines are unchanged, the trace of collaborator calls has not grown and
  the trace of database writes has not grown.
\<close>

theorem fetch_fresh_returns_inputs_unchanged:
  assumes "now_at_check E < price_expiration (checkout (info w))"
  shows "fetch_checkout_prices_if_expired E M w a discounts False = Inr w"
  using assms by (simp add: fetch_checkout_prices_if_expired_def)

theorem fetch_fresh_returns_inputs_unchanged_witness:
  "now_at_check usd_env < price_expiration (checkout (info (demo_world 2000 False [demo_line 1 2])))
   \<and> fetch_checkout_prices_if_expired usd_env demo_manager (demo_world 2000 False [demo_line 1 2])
         (Some 1) None False
       = Inr (demo_world 2000 False [demo_line 1 2])"
proof -
  have fresh:
    "now_at_check usd_env < price_expiration (checkout (info (demo_world 2000 False [demo_line 1 2])))"
    by (simp add: usd_env_def demo_world_def demo_checkout_def)
  show ?thesis
    using fresh fetch_fresh_returns_inputs_unchanged [OF fresh, of demo_manager "Some 1" None]
    by simp
qed

text \<open>
  The short-circuit is the only way to leave the traces alone: a recomputation always
  ends with the two writes.
\<close>

lemma fetch_recompute_writes:
  assumes "force_update \<or> price_expiration (checkout (info w)) \<le> now_at_check E"
    and "fetch_checkout_prices_if_expired E M w a discounts force_update = Inr w'"
  shows "length (db w') = length (db w) + 2 \<and> length (calls w) + 2 \<le> length (calls w')"
  using assms
  by (auto simp: fetch_checkout_prices_if_expired_def recompute_def persist_def Let_def
      tax_lookup_calls_def
      calculate_and_add_tax_def remove_tax_world_def get_checkout_base_prices_world_def
      split: if_splits sum.splits prod.splits)

section \<open>An unrecognised strategy\<close>

text \<open>
  C6 as the spec states it: a strategy that is neither \<^verbatim>\<open>TAX_APP\<close> nor
  \<^verbatim>\<open>FLAT_RATES\<close> makes the tax computation fail. The code does not: with the strategy
  \<^verbatim>\<open>AVATAX\<close> the call returns normally and hands back the world untouched.
\<close>

theorem unknown_strategy_counterexample:
  "calculate_and_add_tax usd_env ''AVATAX'' demo_manager (demo_world 500 False [demo_line 1 2])
     False (Some 1) None
   = Inr (demo_world 500 False [demo_line 1 2])"
  by (simp add: calculate_and_add_tax_def)

text \<open>
  C6 as amended: for a strategy that is neither \<^verbatim>\<open>TAX_APP\<close> nor \<^verbatim>\<open>FLAT_RATES\<close>,
  \<^verbatim>\<open>_calculate_and_add_tax\<close> raises nothing, calls no collaborator and leaves every price
  as it was.
\<close>

theorem unknown_strategy_is_skipped:
  assumes "tax_calculation_strategy \<noteq> ''TAX_APP''"
    and "tax_calculation_strategy \<noteq> ''FLAT_RATES''"
  shows "calculate_and_add_tax E tax_calculation_strategy M w pewt a discounts = Inr w"
  using assms by (simp add: calculate_and_add_tax_def)

theorem unknown_strategy_is_skipped_witness:
  "''NONE'' \<noteq> ''TAX_APP'' \<and> ''NONE'' \<noteq> ''FLAT_RATES''
   \<and> calculate_and_add_tax usd_env ''NONE'' demo_manager (demo_world 500 True [demo_line 1 2])
         True None (Some [])
       = Inr (demo_world 500 True [demo_line 1 2])"
proof -
  have a: "''NONE'' \<noteq> ''TAX_APP''" by simp
  have b: "''NONE'' \<noteq> ''FLAT_RATES''" by simp
  show ?thesis
    using a b
      unknown_strategy_is_skipped [OF a b, of usd_env demo_manager
        "demo_world 500 True [demo_line 1 2]" True None "Some []"]
    by simp
qed

section \<open>Applying the consolidated tax data\<close>

lemma length_apply_tax_lines: "length (apply_tax_lines E cur ls ts) = length ls"
  by (induction E cur ls ts rule: apply_tax_lines.induct) simp_all

lemma apply_tax_lines_nth_updated:
  "i < length ls \<Longrightarrow> i < length ts
     \<Longrightarrow> apply_tax_lines E cur ls ts ! i = apply_tax_line E cur (ls ! i) (ts ! i)"
proof (induction E cur ls ts arbitrary: i rule: apply_tax_lines.induct)
  case (1 E cur li ls t ts)
  then show ?case by (cases i) simp_all
qed simp_all

lemma apply_tax_lines_nth_kept:
  "length ts \<le> i \<Longrightarrow> i < length ls \<Longrightarrow> apply_tax_lines E cur ls ts ! i = ls ! i"
proof (induction E cur ls ts arbitrary: i rule: apply_tax_lines.induct)
  case (1 E cur li ls t ts)
  then show ?case by (cases i) simp_all
qed simp_all

lemma apply_tax_data_Some:
  "apply_tax_data E c ls (Some td) = (c', ls') \<Longrightarrow>
     ls' = apply_tax_lines E (currency c) ls (lines td)
     \<and> currency c' = currency c
     \<and> shipping_tax_rate c' = normalize_tax_rate_for_db E (shipping_tax_rate_d td)
     \<and> shipping_price c' =
         quantize_price E \<lparr>net = shipping_price_net_amount td,
                           gross = shipping_price_gross_amount td\<rparr> (currency c)
     \<and> subtotal c' = calculate_checkout_subtotal E ls' (currency c)
     \<and> total_c c' = calculate_checkout_total E c' (currency c)"
  by (auto simp: apply_tax_data_def Let_def calculate_checkout_total_def)

lemma calculate_and_add_tax_tax_app:
  assumes "apply_tax_data_from_plugins M (info w) (line_infos w) a discounts = (ci1, ls1)"
    and "apply_tax_data E (checkout ci1) ls1 (manager_get_taxes_for_checkout M ci1 ls1) = (c2, ls2)"
  shows "calculate_and_add_tax E ''TAX_APP'' M w pewt a discounts =
           Inr (w\<lparr>info := ci1\<lparr>checkout := c2\<rparr>, line_infos := ls2,
                   calls := calls w @ plugin_calls (line_infos w)
                            @ [ManagerCall ''get_taxes_for_checkout'']\<rparr>)"
  using assms by (simp add: calculate_and_add_tax_def)

text \<open>
  C4. In the \<^verbatim>\<open>TAX_APP\<close> strategy, when \<^verbatim>\<open>get_taxes_for_checkout\<close> returns \<^verbatim>\<open>None\<close>,
  \<^verbatim>\<open>_apply_tax_data\<close> changes nothing: after \<^verbatim>\<open>_calculate_and_add_tax\<close> the checkout
  info and the lines are exactly those the per-call plugin functions left.
\<close>

theorem absent_tax_data_keeps_plugin_values:
  assumes "apply_tax_data_from_plugins M (info w) (line_infos w) a discounts = (ci1, ls1)"
    and "manager_get_taxes_for_checkout M ci1 ls1 = None"
  shows "apply_tax_data E (checkout ci1) ls1 None = (checkout ci1, ls1)
         \<and> (\<exists>w'. calculate_and_add_tax E ''TAX_APP'' M w pewt a discounts = Inr w'
                \<and> info w' = ci1 \<and> line_infos w' = ls1)"
  using assms by (simp add: apply_tax_data_def calculate_and_add_tax_def)

theorem absent_tax_data_keeps_plugin_values_witness:
  "manager_get_taxes_for_checkout demo_manager
     (fst (apply_tax_data_from_plugins demo_manager (info (demo_world 500 False [demo_line 1 2]))
        [demo_line 1 2] (Some 1) None))
     (snd (apply_tax_data_from_plugins demo_manager (info (demo_world 500 False [demo_line 1 2]))
        [demo_line 1 2] (Some 1) None)) = None
   \<and> (\<exists>w'. calculate_and_add_tax usd_env ''TAX_APP'' demo_manager
               (demo_world 500 False [demo_line 1 2]) False (Some 1) None = Inr w'
            \<and> total_c (checkout (info w')) = \<lparr>net = 35, gross = 77 / 2\<rparr>
            \<and> map (\<lambda>li. total_price (line li)) (line_infos w') = [\<lparr>net = 20, gross = 22\<rparr>])"
proof -
  let ?w = "demo_world 500 False [demo_line 1 2]"
  let ?r = "apply_tax_data_from_plugins demo_manager (info ?w) (line_infos ?w) (Some 1) None"
  have l: "line_infos ?w = [demo_line 1 2]" by (simp add: demo_world_def)
  have p: "?r = (fst ?r, snd ?r)" by simp
  have n: "manager_get_taxes_for_checkout demo_manager (fst ?r) (snd ?r) = None"
    by (simp add: demo_manager_def)
  have t: "total_c (checkout (fst ?r)) = \<lparr>net = 35, gross = 77 / 2\<rparr>"
    by (simp add: apply_tax_data_from_plugins_def demo_manager_def Let_def)
  have s: "map (\<lambda>li. total_price (line li)) (snd ?r) = [\<lparr>net = 20, gross = 22\<rparr>]"
    by (simp add: apply_tax_data_from_plugins_def demo_manager_def demo_world_def Let_def
        plugin_line_def demo_line_def)
  from absent_tax_data_keeps_plugin_values [OF p n, of usd_env False]
  show ?thesis using n t s l by auto
qed

text \<open>
  C5. A tax data with as many line entries as the checkout has lines is applied in order:
  line \<open>i\<close> takes its total price (net and gross, quantized) and its tax rate
  (normalized) from entry \<open>i\<close>. Then the subtotal is the quantized sum of all the line
  totals and the total the quantized sum of subtotal and shipping price.
\<close>

theorem tax_data_applied_positionally:
  assumes "length (lines td) = length ls"
    and "apply_tax_data E c ls (Some td) = (c', ls')"
  shows "length ls' = length ls
    \<and> (\<forall>i < length ls.
          total_price (line (ls' ! i)) =
            quantize_price E \<lparr>net = total_net_amount (lines td ! i),
                              gross = total_gross_amount (lines td ! i)\<rparr> (currency c)
          \<and> tax_rate (line (ls' ! i)) = normalize_tax_rate_for_db E (tax_rate_d (lines td ! i))
          \<and> pk (line (ls' ! i)) = pk (line (ls ! i))
          \<and> quantity (line (ls' ! i)) = quantity (line (ls ! i)))
    \<and> subtotal c' =
        quantize_price E
          (sum_taxed (map (\<lambda>line_info. total_price (line line_info)) ls')
             (zero_taxed_money (currency c)))
          (currency c)
    \<and> total_c c' = quantize_price E (taxed_add (subtotal c') (shipping_price c')) (currency c)"
proof -
  from assms(2) have r: "ls' = apply_tax_lines E (currency c) ls (lines td)"
    and s: "subtotal c' = calculate_checkout_subtotal E ls' (currency c)"
    and t: "total_c c' = calculate_checkout_total E c' (currency c)"
    using apply_tax_data_Some by blast+
  have "length ls' = length ls" using r by (simp add: length_apply_tax_lines)
  moreover have "\<forall>i < length ls. ls' ! i = apply_tax_line E (currency c) (ls ! i) (lines td ! i)"
    using r assms(1) by (simp add: apply_tax_lines_nth_updated)
  ultimately show ?thesis using s t
    by (simp add: apply_tax_line_def calculate_checkout_subtotal_def calculate_checkout_total_def)
qed

theorem tax_data_applied_positionally_witness:
  "length (lines two_line_tax_data) = length [demo_line 1 2, demo_line 2 1]
   \<and> map (\<lambda>li. (pk (line li), total_price (line li), tax_rate (line li)))
        (snd (apply_tax_data usd_env (demo_checkout 500) [demo_line 1 2, demo_line 2 1]
           (Some two_line_tax_data)))
       = [(1, \<lparr>net = 20, gross = 441 / 20\<rparr>, 1 / 10), (2, \<lparr>net = 10, gross = 54 / 5\<rparr>, 2 / 25)]
   \<and> subtotal (fst (apply_tax_data usd_env (demo_checkout 500) [demo_line 1 2, demo_line 2 1]
         (Some two_line_tax_data))) = \<lparr>net = 30, gross = 657 / 20\<rparr>
   \<and> total_c (fst (apply_tax_data usd_env (demo_checkout 500) [demo_line 1 2, demo_line 2 1]
         (Some two_line_tax_data))) = \<lparr>net = 35, gross = 767 / 20\<rparr>"
proof -
  let ?ls = "[demo_line 1 2, demo_line 2 1]"
  let ?r = "apply_tax_data usd_env (demo_checkout 500) ?ls (Some two_line_tax_data)"
  let ?e = "\<lambda>i. (pk (line (?ls ! i)),
               quantize_price usd_env
                 \<lparr>net = total_net_amount (lines two_line_tax_data ! i),
                  gross = total_gross_amount (lines two_line_tax_data ! i)\<rparr>
                 (currency (demo_checkout 500)),
               normalize_tax_rate_for_db usd_env (tax_rate_d (lines two_line_tax_data ! i)))"
  have n: "length (lines two_line_tax_data) = length ?ls"
    by (simp add: two_line_tax_data_def)
  have p: "?r = (fst ?r, snd ?r)" by simp
  note t = tax_data_applied_positionally [OF n p]
  from t have len: "length (snd ?r) = length ?ls" by (elim conjE)
  from t have at: "\<forall>i < length ?ls.
          total_price (line (snd ?r ! i)) =
            quantize_price usd_env \<lparr>net = total_net_amount (lines two_line_tax_data ! i),
                              gross = total_gross_amount (lines two_line_tax_data ! i)\<rparr>
              (currency (demo_checkout 500))
          \<and> tax_rate (line (snd ?r ! i)) =
              normalize_tax_rate_for_db usd_env (tax_rate_d (lines two_line_tax_data ! i))
          \<and> pk (line (snd ?r ! i)) = pk (line (?ls ! i))
          \<and> quantity (line (snd ?r ! i)) = quantity (line (?ls ! i))"
    by (elim conjE)
  have i0: "(0::nat) < length ?ls" and i1: "(1::nat) < length ?ls" by simp_all
  have l0: "(pk (line (snd ?r ! 0)), total_price (line (snd ?r ! 0)), tax_rate (line (snd ?r ! 0)))
              = ?e 0"
    using at [rule_format, OF i0] by simp
  have l1: "(pk (line (snd ?r ! 1)), total_price (line (snd ?r ! 1)), tax_rate (line (snd ?r ! 1)))
              = ?e 1"
    using at [rule_format, OF i1] by simp
  have e0: "?e 0 = (1, \<lparr>net = 20, gross = 441 / 20\<rparr>, 1 / 10)" by code_simp
  have e1: "?e 1 = (2, \<lparr>net = 10, gross = 54 / 5\<rparr>, 2 / 25)" by code_simp
  have two: "snd ?r = [snd ?r ! 0, snd ?r ! 1]"
    using len by (cases "snd ?r"; cases "tl (snd ?r)"; cases "tl (tl (snd ?r))") auto
  have m: "map (\<lambda>li. (pk (line li), total_price (line li), tax_rate (line li))) (snd ?r)
       = [(1, \<lparr>net = 20, gross = 441 / 20\<rparr>, 1 / 10), (2, \<lparr>net = 10, gross = 54 / 5\<rparr>, 2 / 25)]"
    by (subst two) (simp only: list.map l0 l1 e0 e1)
  have st: "quantize_price usd_env
              (sum_taxed (map (\<lambda>line_info. total_price (line line_info)) (snd ?r))
                 (zero_taxed_money (currency (demo_checkout 500))))
              (currency (demo_checkout 500)) = \<lparr>net = 30, gross = 657 / 20\<rparr>"
    by code_simp
  have tt: "quantize_price usd_env (taxed_add (subtotal (fst ?r)) (shipping_price (fst ?r)))
              (currency (demo_checkout 500)) = \<lparr>net = 35, gross = 767 / 20\<rparr>"
    by code_simp
  from t have s': "subtotal (fst ?r) = \<lparr>net = 30, gross = 657 / 20\<rparr>"
    unfolding st by (elim conjE)
  from t have t': "total_c (fst ?r) = \<lparr>net = 35, gross = 767 / 20\<rparr>"
    unfolding tt by (elim conjE)
  show ?thesis using n m s' t' by simp
qed

text \<open>
  C9. Whatever the two lengths are, in particular when they differ, the tax app's answer
  is applied without an error: the first \<open>min M N\<close> lines are overwritten from the
  entries at the same positions, the lines beyond them stay as the per-call plugin
  functions left them, and the subtotal is the quantized sum over all the lines, the
  total the quantized sum of that subtotal and the shipping price.
\<close>

theorem tax_data_of_another_length:
  assumes "apply_tax_data_from_plugins M (info w) (line_infos w) a discounts = (ci1, ls1)"
    and "manager_get_taxes_for_checkout M ci1 ls1 = Some td"
  shows "\<exists>w'. calculate_and_add_tax E ''TAX_APP'' M w pewt a discounts = Inr w'
    \<and> length (line_infos w') = length ls1
    \<and> (\<forall>i < min (length ls1) (length (lines td)).
          line_infos w' ! i = apply_tax_line E (currency (checkout ci1)) (ls1 ! i) (lines td ! i))
    \<and> (\<forall>i < length ls1. length (lines td) \<le> i \<longrightarrow> line_infos w' ! i = ls1 ! i)
    \<and> subtotal (checkout (info w')) =
        quantize_price E
          (sum_taxed (map (\<lambda>line_info. total_price (line line_info)) (line_infos w'))
             (zero_taxed_money (currency (checkout ci1))))
          (currency (checkout ci1))
    \<and> total_c (checkout (info w')) =
        quantize_price E
          (taxed_add (subtotal (checkout (info w'))) (shipping_price (checkout (info w'))))
          (currency (checkout ci1))"
proof -
  obtain c2 ls2 where ap: "apply_tax_data E (checkout ci1) ls1 (Some td) = (c2, ls2)"
    by (cases "apply_tax_data E (checkout ci1) ls1 (Some td)") blast
  from apply_tax_data_Some [OF ap]
  have r: "ls2 = apply_tax_lines E (currency (checkout ci1)) ls1 (lines td)"
    and s: "subtotal c2 = calculate_checkout_subtotal E ls2 (currency (checkout ci1))"
    and t: "total_c c2 = calculate_checkout_total E c2 (currency (checkout ci1))"
    by blast+
  let ?w' = "w\<lparr>info := ci1\<lparr>checkout := c2\<rparr>, line_infos := ls2,
                calls := calls w @ plugin_calls (line_infos w)
                         @ [ManagerCall ''get_taxes_for_checkout'']\<rparr>"
  have run: "calculate_and_add_tax E ''TAX_APP'' M w pewt a discounts = Inr ?w'"
    using assms ap by (simp add: calculate_and_add_tax_tax_app)
  have "length (line_infos ?w') = length ls1"
    using r by (simp add: length_apply_tax_lines)
  moreover have "\<forall>i < min (length ls1) (length (lines td)).
      line_infos ?w' ! i = apply_tax_line E (currency (checkout ci1)) (ls1 ! i) (lines td ! i)"
    using r by (simp add: apply_tax_lines_nth_updated)
  moreover have "\<forall>i < length ls1. length (lines td) \<le> i \<longrightarrow> line_infos ?w' ! i = ls1 ! i"
    using r by (simp add: apply_tax_lines_nth_kept)
  moreover have "subtotal (checkout (info ?w')) =
      quantize_price E
        (sum_taxed (map (\<lambda>line_info. total_price (line line_info)) (line_infos ?w'))
           (zero_taxed_money (currency (checkout ci1))))
        (currency (checkout ci1))"
    using s by (simp add: calculate_checkout_subtotal_def)
  moreover have "total_c (checkout (info ?w')) =
      quantize_price E
        (taxed_add (subtotal (checkout (info ?w'))) (shipping_price (checkout (info ?w'))))
        (currency (checkout ci1))"
    using t by (simp add: calculate_checkout_total_def)
  ultimately show ?thesis using run by blast
qed

theorem tax_data_of_another_length_witness:
  "manager_get_taxes_for_checkout tax_app_manager
     (fst (apply_tax_data_from_plugins tax_app_manager
        (info (demo_world 500 False [demo_line 1 2, demo_line 2 1]))
        (line_infos (demo_world 500 False [demo_line 1 2, demo_line 2 1])) (Some 1) None))
     (snd (apply_tax_data_from_plugins tax_app_manager
        (info (demo_world 500 False [demo_line 1 2, demo_line 2 1]))
        (line_infos (demo_world 500 False [demo_line 1 2, demo_line 2 1])) (Some 1) None))
     = Some demo_tax_data
   \<and> length (lines demo_tax_data) = 1
   \<and> \<not> isl (calculate_and_add_tax usd_env ''TAX_APP'' tax_app_manager
              (demo_world 500 False [demo_line 1 2, demo_line 2 1]) False (Some 1) None)
   \<and> map (\<lambda>li. total_price (line li))
        (line_infos (projr (calculate_and_add_tax usd_env ''TAX_APP'' tax_app_manager
           (demo_world 500 False [demo_line 1 2, demo_line 2 1]) False (Some 1) None)))
       = [\<lparr>net = 20, gross = 441 / 20\<rparr>, \<lparr>net = 10, gross = 11\<rparr>]
   \<and> subtotal (checkout (info (projr (calculate_and_add_tax usd_env ''TAX_APP'' tax_app_manager
        (demo_world 500 False [demo_line 1 2, demo_line 2 1]) False (Some 1) None))))
       = \<lparr>net = 30, gross = 661 / 20\<rparr>
   \<and> total_c (checkout (info (projr (calculate_and_add_tax usd_env ''TAX_APP'' tax_app_manager
        (demo_world 500 False [demo_line 1 2, demo_line 2 1]) False (Some 1) None))))
       = \<lparr>net = 35, gross = 771 / 20\<rparr>"
proof -
  let ?w = "demo_world 500 False [demo_line 1 2, demo_line 2 1]"
  let ?r = "apply_tax_data_from_plugins tax_app_manager (info ?w) (line_infos ?w) (Some 1) None"
  let ?run = "calculate_and_add_tax usd_env ''TAX_APP'' tax_app_manager ?w False (Some 1) None"
  have p: "?r = (fst ?r, snd ?r)" by simp
  have g: "manager_get_taxes_for_checkout tax_app_manager (fst ?r) (snd ?r) = Some demo_tax_data"
    by (simp add: tax_app_manager_def)
  have n: "length (lines demo_tax_data) = 1" by (simp add: demo_tax_data_def)
  have ok: "\<not> isl ?run"
    using tax_data_of_another_length [OF p g, of usd_env False] by (elim exE conjE) simp
  have ls: "map (\<lambda>li. total_price (line li)) (line_infos (projr ?run))
      = [\<lparr>net = 20, gross = 441 / 20\<rparr>, \<lparr>net = 10, gross = 11\<rparr>]"
    by code_simp
  have s: "subtotal (checkout (info (projr ?run))) = \<lparr>net = 30, gross = 661 / 20\<rparr>"
    by code_simp
  have t: "total_c (checkout (info (projr ?run))) = \<lparr>net = 35, gross = 771 / 20\<rparr>"
    by code_simp
  show ?thesis using g n ok ls s t by simp
qed

section \<open>Removing the tax\<close>

lemma calculate_and_add_tax_returns:
  "\<exists>w1. calculate_and_add_tax E s M w pewt a discounts = Inr w1"
  by (simp add: calculate_and_add_tax_def Let_def split: prod.splits)

lemma persist_prices:
  "total_c (checkout (info (persist E w))) = total_c (checkout (info w))"
  "subtotal (checkout (info (persist E w))) = subtotal (checkout (info w))"
  "shipping_price (checkout (info (persist E w))) = shipping_price (checkout (info w))"
  "shipping_tax_rate (checkout (info (persist E w))) = shipping_tax_rate (checkout (info w))"
  "currency (checkout (info (persist E w))) = currency (checkout (info w))"
  "line_infos (persist E w) = line_infos w"
  by (simp_all add: persist_def Let_def)

lemma remove_tax_world_checkout:
  "total_c (checkout (info (remove_tax_world w))) =
     \<lparr>net = net (total_c (checkout (info w))), gross = net (total_c (checkout (info w)))\<rparr>"
  "subtotal (checkout (info (remove_tax_world w))) =
     \<lparr>net = net (subtotal (checkout (info w))), gross = net (subtotal (checkout (info w)))\<rparr>"
  "shipping_price (checkout (info (remove_tax_world w))) =
     \<lparr>net = net (shipping_price (checkout (info w))),
      gross = net (shipping_price (checkout (info w)))\<rparr>"
  "shipping_tax_rate (checkout (info (remove_tax_world w))) = 0"
  "line_infos (remove_tax_world w) = map remove_tax_line (line_infos w)"
  by (simp_all add: remove_tax_world_def remove_tax_def)

lemma remove_tax_line_line:
  "total_price (line (remove_tax_line li)) =
     \<lparr>net = net (total_price (line li)), gross = net (total_price (line li))\<rparr>"
  "tax_rate (line (remove_tax_line li)) = 0"
  "pk (line (remove_tax_line li)) = pk (line li)"
  "quantity (line (remove_tax_line li)) = quantity (line li)"
  by (simp_all add: remove_tax_line_def)

lemma fetch_remove_tax_path:
  assumes "prices_entered_with_tax (info w)"
    and "\<not> (get_charge_taxes_for_checkout E (info w) (line_infos w)
             \<and> \<not> tax_exemption (checkout (info w)))"
    and "force_update \<or> price_expiration (checkout (info w)) \<le> now_at_check E"
    and "calculate_and_add_tax E
           (get_tax_calculation_strategy_for_checkout E (info w) (line_infos w)) M
           (w\<lparr>calls := calls w @ tax_lookup_calls\<rparr>) True a discounts = Inr w1"
  shows "fetch_checkout_prices_if_expired E M w a discounts force_update
           = Inr (persist E (remove_tax_world w1))"
  using assms
  by (auto simp: fetch_checkout_prices_if_expired_def recompute_def Let_def)

text \<open>
  C2. When prices are entered with tax and tax is not to be charged (\<^verbatim>\<open>charge_taxes\<close>
  off, or the checkout exempt), a recomputation first runs \<^verbatim>\<open>_calculate_and_add_tax\<close>
  with the selected strategy and then removes the tax from its result: the net amounts
  are those the strategy computed, every gross amount of the checkout (total, subtotal,
  shipping) and of every line equals its net amount, and every tax rate is zero.
\<close>

theorem tax_removed_when_not_charged:
  assumes "prices_entered_with_tax (info w)"
    and "\<not> (get_charge_taxes_for_checkout E (info w) (line_infos w)
             \<and> \<not> tax_exemption (checkout (info w)))"
    and "force_update \<or> price_expiration (checkout (info w)) \<le> now_at_check E"
  shows "\<exists>w1 w'.
      calculate_and_add_tax E
        (get_tax_calculation_strategy_for_checkout E (info w) (line_infos w)) M
        (w\<lparr>calls := calls w @ tax_lookup_calls\<rparr>) True a discounts = Inr w1
    \<and> fetch_checkout_prices_if_expired E M w a discounts force_update = Inr w'
    \<and> net (total_c (checkout (info w'))) = net (total_c (checkout (info w1)))
    \<and> net (subtotal (checkout (info w'))) = net (subtotal (checkout (info w1)))
    \<and> net (shipping_price (checkout (info w'))) = net (shipping_price (checkout (info w1)))
    \<and> map (\<lambda>li. net (total_price (line li))) (line_infos w')
        = map (\<lambda>li. net (total_price (line li))) (line_infos w1)
    \<and> gross (total_c (checkout (info w'))) = net (total_c (checkout (info w')))
    \<and> gross (subtotal (checkout (info w'))) = net (subtotal (checkout (info w')))
    \<and> gross (shipping_price (checkout (info w'))) = net (shipping_price (checkout (info w')))
    \<and> shipping_tax_rate (checkout (info w')) = 0
    \<and> (\<forall>li \<in> set (line_infos w').
          gross (total_price (line li)) = net (total_price (line li)) \<and> tax_rate (line li) = 0)"
proof -
  obtain w1 where c: "calculate_and_add_tax E
        (get_tax_calculation_strategy_for_checkout E (info w) (line_infos w)) M
        (w\<lparr>calls := calls w @ tax_lookup_calls\<rparr>) True a discounts = Inr w1"
    using calculate_and_add_tax_returns by blast
  let ?w' = "persist E (remove_tax_world w1)"
  have f: "fetch_checkout_prices_if_expired E M w a discounts force_update = Inr ?w'"
    using fetch_remove_tax_path [OF assms c] .
  have "net (total_c (checkout (info ?w'))) = net (total_c (checkout (info w1)))"
    and "net (subtotal (checkout (info ?w'))) = net (subtotal (checkout (info w1)))"
    and "net (shipping_price (checkout (info ?w'))) = net (shipping_price (checkout (info w1)))"
    and "gross (total_c (checkout (info ?w'))) = net (total_c (checkout (info ?w')))"
    and "gross (subtotal (checkout (info ?w'))) = net (subtotal (checkout (info ?w')))"
    and "gross (shipping_price (checkout (info ?w'))) = net (shipping_price (checkout (info ?w')))"
    and "shipping_tax_rate (checkout (info ?w')) = 0"
    by (simp_all add: persist_prices remove_tax_world_checkout)
  moreover have "map (\<lambda>li. net (total_price (line li))) (line_infos ?w')
        = map (\<lambda>li. net (total_price (line li))) (line_infos w1)"
    by (simp add: persist_prices remove_tax_world_checkout remove_tax_line_line comp_def)
  moreover have "\<forall>li \<in> set (line_infos ?w').
      gross (total_price (line li)) = net (total_price (line li)) \<and> tax_rate (line li) = 0"
    by (auto simp: persist_prices remove_tax_world_checkout remove_tax_line_line)
  ultimately show ?thesis using c f by blast
qed

theorem tax_removed_when_not_charged_witness:
  "prices_entered_with_tax (info (demo_world 500 True [demo_line 1 2, demo_line 2 1]))
   \<and> \<not> get_charge_taxes_for_checkout untaxed_env
          (info (demo_world 500 True [demo_line 1 2, demo_line 2 1]))
          (line_infos (demo_world 500 True [demo_line 1 2, demo_line 2 1]))
   \<and> price_expiration (checkout (info (demo_world 500 True [demo_line 1 2, demo_line 2 1])))
       \<le> now_at_check untaxed_env
   \<and> \<not> isl (fetch_checkout_prices_if_expired untaxed_env demo_manager
              (demo_world 500 True [demo_line 1 2, demo_line 2 1]) (Some 1) None False)
   \<and> total_c (checkout (info (projr (fetch_checkout_prices_if_expired untaxed_env demo_manager
        (demo_world 500 True [demo_line 1 2, demo_line 2 1]) (Some 1) None False))))
       = \<lparr>net = 35, gross = 35\<rparr>
   \<and> map (\<lambda>li. (total_price (line li), tax_rate (line li)))
        (line_infos (projr (fetch_checkout_prices_if_expired untaxed_env demo_manager
           (demo_world 500 True [demo_line 1 2, demo_line 2 1]) (Some 1) None False)))
       = [(\<lparr>net = 20, gross = 20\<rparr>, 0), (\<lparr>net = 10, gross = 10\<rparr>, 0)]"
proof -
  let ?w = "demo_world 500 True [demo_line 1 2, demo_line 2 1]"
  let ?run = "fetch_checkout_prices_if_expired untaxed_env demo_manager ?w (Some 1) None False"
  have h1: "prices_entered_with_tax (info ?w)" by (simp add: demo_world_def)
  have h2: "\<not> get_charge_taxes_for_checkout untaxed_env (info ?w) (line_infos ?w)"
    by (simp add: untaxed_env_def)
  then have h2': "\<not> (get_charge_taxes_for_checkout untaxed_env (info ?w) (line_infos ?w)
             \<and> \<not> tax_exemption (checkout (info ?w)))" by simp
  have h3: "price_expiration (checkout (info ?w)) \<le> now_at_check untaxed_env"
    by (simp add: demo_world_def demo_checkout_def untaxed_env_def usd_env_def)
  then have h3': "False \<or> price_expiration (checkout (info ?w)) \<le> now_at_check untaxed_env"
    by simp
  have ok: "\<not> isl ?run"
    using tax_removed_when_not_charged [OF h1 h2' h3', of demo_manager "Some 1" None]
    by (elim exE conjE) simp
  have t: "total_c (checkout (info (projr ?run))) = \<lparr>net = 35, gross = 35\<rparr>"
    by code_simp
  have l: "map (\<lambda>li. (total_price (line li), tax_rate (line li))) (line_infos (projr ?run))
       = [(\<lparr>net = 20, gross = 20\<rparr>, 0), (\<lparr>net = 10, gross = 10\<rparr>, 0)]"
    by code_simp
  show ?thesis using h1 h2 h3 ok t l by simp
qed

section \<open>The total on the tax-free path\<close>












section \<open>The unit price of a line\<close>

lemma recompute_returns: "\<exists>w1. recompute E M w a discounts = Inr w1"
proof -
  obtain w1 where c: "calculate_and_add_tax E
      (get_tax_calculation_strategy_for_checkout E (info w) (line_infos w)) M
      (w\<lparr>calls := calls w @ tax_lookup_calls\<rparr>) (prices_entered_with_tax (info w)) a discounts
      = Inr w1"
    using calculate_and_add_tax_returns by blast
  show ?thesis
  proof (cases "prices_entered_with_tax (info w)")
    case True
    with c show ?thesis by (simp add: recompute_def Let_def)
  next
    case False
    with c show ?thesis by (simp add: recompute_def Let_def)
  qed
qed

lemma fetch_returns:
  "\<exists>w1. fetch_checkout_prices_if_expired E M w a discounts force_update = Inr w1"
proof -
  obtain w1 where "recompute E M w a discounts = Inr w1"
    using recompute_returns by blast
  then show ?thesis by (simp add: fetch_checkout_prices_if_expired_def)
qed

lemma taxed_div_nonzero:
  "n \<noteq> 0 \<Longrightarrow> taxed_div p n = Inr \<lparr>net = net p / of_int n, gross = gross p / of_int n\<rparr>"
  by (simp add: taxed_div_def decimal_div_def)

lemma taxed_div_zero: "isl (taxed_div p 0)"
  by (simp add: taxed_div_def decimal_div_def)

text \<open>
  C10. \<^verbatim>\<open>checkout_line_unit_price\<close> ensures freshness and looks the line up in the
  lines it got back. When the line found has a quantity above zero, the result is its
  total price divided by the quantity (net and gross), quantized in the checkout's
  currency. When its quantity is zero the division raises and the operation fails.
\<close>

theorem line_unit_price_divides_by_quantity:
  "\<exists>w1. fetch_checkout_prices_if_expired E M w
           (address_or (shipping_address (info w)) (billing_address (info w)))
           (Some discounts) False = Inr w1
     \<and> (\<forall>li. find_checkout_line_info (line_infos w1) checkout_line_info = Inr li \<longrightarrow>
           (0 < quantity (line li) \<longrightarrow>
              checkout_line_unit_price E M w checkout_line_info discounts =
                Inr (w1, quantize_price E
                           \<lparr>net = net (total_price (line li)) / of_int (quantity (line li)),
                            gross = gross (total_price (line li)) / of_int (quantity (line li))\<rparr>
                           (currency (checkout (info w)))))
         \<and> (quantity (line li) = 0 \<longrightarrow>
              isl (checkout_line_unit_price E M w checkout_line_info discounts)))"
proof -
  obtain w1 where f: "fetch_checkout_prices_if_expired E M w
           (address_or (shipping_address (info w)) (billing_address (info w)))
           (Some discounts) False = Inr w1"
    using fetch_returns by blast
  have "checkout_line_unit_price E M w checkout_line_info discounts =
          Inr (w1, quantize_price E
                     \<lparr>net = net (total_price (line li)) / of_int (quantity (line li)),
                      gross = gross (total_price (line li)) / of_int (quantity (line li))\<rparr>
                     (currency (checkout (info w))))"
    if "find_checkout_line_info (line_infos w1) checkout_line_info = Inr li"
      and "0 < quantity (line li)" for li
    using that f by (simp add: checkout_line_unit_price_def Let_def taxed_div_nonzero)
  moreover have "isl (checkout_line_unit_price E M w checkout_line_info discounts)"
    if "find_checkout_line_info (line_infos w1) checkout_line_info = Inr li"
      and "quantity (line li) = 0" for li
    using that f taxed_div_zero [of "total_price (line li)"]
    by (auto simp: checkout_line_unit_price_def Let_def split: sum.splits)
  ultimately show ?thesis using f by blast
qed

theorem line_unit_price_divides_by_quantity_witness:
  "checkout_line_unit_price usd_env demo_manager
     (demo_world 500 False [demo_line 1 2, demo_line 2 0]) (demo_line 1 2) []
   = Inr (projr (fetch_checkout_prices_if_expired usd_env demo_manager
                   (demo_world 500 False [demo_line 1 2, demo_line 2 0]) (Some 1) (Some []) False),
          \<lparr>net = 10, gross = 11\<rparr>)
   \<and> isl (checkout_line_unit_price usd_env demo_manager
            (demo_world 500 False [demo_line 1 2, demo_line 2 0]) (demo_line 2 0) [])"
proof -
  let ?w = "demo_world 500 False [demo_line 1 2, demo_line 2 0]"
  let ?f = "fetch_checkout_prices_if_expired usd_env demo_manager ?w (Some 1) (Some []) False"
  let ?l1 = "\<lparr>line = \<lparr>pk = 1, quantity = 2, total_price = \<lparr>net = 20, gross = 22\<rparr>,
                       tax_rate = 1 / 10\<rparr>, variant = 1\<rparr>"
  let ?l2 = "\<lparr>line = \<lparr>pk = 2, quantity = 0, total_price = \<lparr>net = 0, gross = 0\<rparr>,
                       tax_rate = 1 / 10\<rparr>, variant = 2\<rparr>"
  have adr: "address_or (shipping_address (info ?w)) (billing_address (info ?w)) = Some 1"
    by (simp add: demo_world_def address_or_def)
  have cur: "currency (checkout (info ?w)) = ''USD''"
    by (simp add: demo_world_def demo_checkout_def)
  have f1: "find_checkout_line_info (line_infos (projr ?f)) (demo_line 1 2) = Inr ?l1"
    by code_simp
  have f2: "find_checkout_line_info (line_infos (projr ?f)) (demo_line 2 0) = Inr ?l2"
    by code_simp
  have q: "quantize_price usd_env \<lparr>net = 20 / of_int 2, gross = 22 / of_int 2\<rparr> ''USD''
             = \<lparr>net = 10, gross = 11\<rparr>"
    by code_simp
  from line_unit_price_divides_by_quantity [of usd_env demo_manager ?w "[]" "demo_line 1 2"]
  obtain w1 where r1: "?f = Inr w1"
    and i1: "\<forall>li. find_checkout_line_info (line_infos w1) (demo_line 1 2) = Inr li \<longrightarrow>
           (0 < quantity (line li) \<longrightarrow>
              checkout_line_unit_price usd_env demo_manager ?w (demo_line 1 2) [] =
                Inr (w1, quantize_price usd_env
                           \<lparr>net = net (total_price (line li)) / of_int (quantity (line li)),
                            gross = gross (total_price (line li)) / of_int (quantity (line li))\<rparr>
                           (currency (checkout (info ?w)))))
         \<and> (quantity (line li) = 0 \<longrightarrow>
              isl (checkout_line_unit_price usd_env demo_manager ?w (demo_line 1 2) []))"
    unfolding adr by blast
  have w1: "w1 = projr ?f" using r1 by simp
  have a: "checkout_line_unit_price usd_env demo_manager ?w (demo_line 1 2) []
             = Inr (projr ?f, \<lparr>net = 10, gross = 11\<rparr>)"
    using i1 [rule_format, of ?l1] f1 q cur unfolding w1 by simp
  have b: "isl (checkout_line_unit_price usd_env demo_manager ?w (demo_line 2 0) [])"
    by code_simp
  show ?thesis using a b by simp
qed

section \<open>The total with gift cards\<close>

lemma max_taxed_zero_gross: "0 \<le> gross (max_taxed t (zero_taxed_money cur))"
  by (auto simp: max_taxed_def taxed_gt_def taxed_lt_def zero_taxed_money_def)

lemma checkout_total_fetch:
  "fetch_checkout_prices_if_expired E M w a discounts False = Inr w1 \<Longrightarrow>
   checkout_total E M w a discounts =
     Inr (w1, quantize_price E (total_c (checkout (info w1))) (currency (checkout (info w))))"
  by (simp add: checkout_total_def)

text \<open>
  For every checkout the call returns, leaves the world as the freshness step left it
  (the stored total is not touched by the subtraction) and gives the \<^verbatim>\<open>max\<close> of the
  quantized total minus the gift-card balance and zero money. \<^verbatim>\<open>max\<close> compares gross
  amounts only, so it is the gross amount that is kept from falling below zero.
\<close>

lemma gift_cards_total_is_max_with_zero:
  "\<exists>w1 r.
      fetch_checkout_prices_if_expired E M w a discounts False = Inr w1
    \<and> calculate_checkout_total_with_gift_cards E M w a discounts = Inr (w1, r)
    \<and> r = max_taxed
            (taxed_sub_money
               (quantize_price E (total_c (checkout (info w1))) (currency (checkout (info w))))
               (get_total_gift_cards_balance E (checkout (info w1))))
            (zero_taxed_money (currency (checkout (info w1))))
    \<and> \<not> taxed_lt r (zero_taxed_money (currency (checkout (info w1))))
    \<and> 0 \<le> gross r"
proof -
  obtain w1 where f: "fetch_checkout_prices_if_expired E M w a discounts False = Inr w1"
    using fetch_returns by blast
  let ?r = "max_taxed
            (taxed_sub_money
               (quantize_price E (total_c (checkout (info w1))) (currency (checkout (info w))))
               (get_total_gift_cards_balance E (checkout (info w1))))
            (zero_taxed_money (currency (checkout (info w1))))"
  have run: "calculate_checkout_total_with_gift_cards E M w a discounts = Inr (w1, ?r)"
    using checkout_total_fetch [OF f]
    by (simp add: calculate_checkout_total_with_gift_cards_def)
  have g: "0 \<le> gross ?r" by (rule max_taxed_zero_gross)
  then have "\<not> taxed_lt ?r (zero_taxed_money (currency (checkout (info w1))))"
    by (simp add: taxed_lt_def zero_taxed_money_def)
  with f run g show ?thesis by blast
qed

text \<open>
  C8. The claim: \<^verbatim>\<open>calculate_checkout_total_with_gift_cards\<close> returns the total minus the
  gift-card balance, clamped at zero money, so the result is never negative. The code
  clamps with \<^verbatim>\<open>max(total, zero_taxed_money(...))\<close>, which looks at the gross amount
  only, and misses the net amount. With a stored total of 35.00 net and 38.50 gross:
  gift cards worth 36.00 give -1.00 net and 2.50 gross, and gift cards worth 38.50 (the
  whole gross total) give -3.50 net and 0.00 gross. The stored total stays 35.00 and
  38.50 in both runs.
\<close>

theorem gift_cards_net_below_zero:
  "calculate_checkout_total_with_gift_cards
     (usd_env\<lparr>get_total_gift_cards_balance := (\<lambda>_. 36)\<rparr>) demo_manager
     (demo_world 500 False [demo_line 1 2, demo_line 2 1]) (Some 1) None
   = Inr (projr (fetch_checkout_prices_if_expired
                   (usd_env\<lparr>get_total_gift_cards_balance := (\<lambda>_. 36)\<rparr>) demo_manager
                   (demo_world 500 False [demo_line 1 2, demo_line 2 1]) (Some 1) None False),
          \<lparr>net = - 1, gross = 5 / 2\<rparr>)
   \<and> calculate_checkout_total_with_gift_cards
       (usd_env\<lparr>get_total_gift_cards_balance := (\<lambda>_. 77 / 2)\<rparr>) demo_manager
       (demo_world 500 False [demo_line 1 2, demo_line 2 1]) (Some 1) None
     = Inr (projr (fetch_checkout_prices_if_expired
                     (usd_env\<lparr>get_total_gift_cards_balance := (\<lambda>_. 77 / 2)\<rparr>) demo_manager
                     (demo_world 500 False [demo_line 1 2, demo_line 2 1]) (Some 1) None False),
            \<lparr>net = - (7 / 2), gross = 0\<rparr>)
   \<and> total_c (checkout (info (projr (fetch_checkout_prices_if_expired
                   (usd_env\<lparr>get_total_gift_cards_balance := (\<lambda>_. 36)\<rparr>) demo_manager
                   (demo_world 500 False [demo_line 1 2, demo_line 2 1]) (Some 1) None False))))
       = \<lparr>net = 35, gross = 77 / 2\<rparr>
   \<and> total_c (checkout (info (projr (fetch_checkout_prices_if_expired
                   (usd_env\<lparr>get_total_gift_cards_balance := (\<lambda>_. 77 / 2)\<rparr>) demo_manager
                   (demo_world 500 False [demo_line 1 2, demo_line 2 1]) (Some 1) None False))))
       = \<lparr>net = 35, gross = 77 / 2\<rparr>"
  by code_simp

section \<open>Where amounts are quantized\<close>

















end
